theory Spec2Isabelle
  imports Complex_Main "HOL-Library.Char_ord" "HOL-Library.List_Lexorder"
begin

section \<open>Values, arrays and errors\<close>

text \<open>
  The real-time classifier \<^verbatim>\<open>src/UI/real_time.py\<close> works on numpy \<^verbatim>\<open>float64\<close> data.
  A float is a finite number or one of the three special values; finite arithmetic is
  exact here (rounding is not modelled), the special values follow IEEE 754.
\<close>

datatype npfloat = Fin real | PosInf | NegInf | NaN

type_synonym signal = "npfloat list"

text \<open>A 2-D array is the list of its rows (for an EEG window: one row per channel).\<close>

type_synonym matrix = "signal list"

text \<open>
  What \<^verbatim>\<open>np.array\<close> returns for a list of 1-D rows: a 2-D array, except that the empty
  list gives the 1-D array of shape \<^verbatim>\<open>(0,)\<close>.
\<close>

datatype ndarray = Array1 signal | Array2 matrix

text \<open>A Python exception: the name of its class and its message.\<close>

datatype error = Exception (exc_type: string) (exc_msg: string)

abbreviation ValueError :: "string \<Rightarrow> error" where
  "ValueError \<equiv> Exception ''ValueError''"

abbreviation ZeroDivisionError :: error where
  "ZeroDivisionError \<equiv> Exception ''ZeroDivisionError'' ''float division by zero''"

abbreviation TypeError :: error where
  "TypeError \<equiv> Exception ''TypeError'' ''object of type numpy.float64 has no len()''"

abbreviation AxisError :: error where
  "AxisError \<equiv> Exception ''AxisError'' ''axis 1 is out of bounds for array of dimension 1''"

abbreviation IndexError :: error where
  "IndexError \<equiv> Exception ''IndexError'' ''single positional indexer is out-of-bounds''"

abbreviation KeyError :: error where
  "KeyError \<equiv> Exception ''KeyError'' ''''"

text \<open>
  \<^verbatim>\<open>[f(x) for x in xs]\<close> where \<^verbatim>\<open>f\<close> may raise: the first exception, in list order, ends
  the comprehension.
\<close>

fun traverse :: "('a \<Rightarrow> error + 'b) \<Rightarrow> 'a list \<Rightarrow> error + 'b list" where
  "traverse f [] = Inr []"
| "traverse f (x # xs) =
     (case f x of
        Inl e \<Rightarrow> Inl e
      | Inr y \<Rightarrow> (case traverse f xs of Inl e \<Rightarrow> Inl e | Inr ys \<Rightarrow> Inr (y # ys)))"

text \<open>
  \<^verbatim>\<open>np.array(rows)\<close> for a list of 1-D arrays (numpy 2, which the source's
  \<^verbatim>\<open>np.trapezoid\<close> needs): rows of different lengths are rejected.
\<close>

definition np_array :: "signal list \<Rightarrow> error + ndarray" where
  "np_array rs =
     (if rs = [] then Inr (Array1 [])
      else if list_all (\<lambda>r. length r = length (hd rs)) rs then Inr (Array2 rs)
      else Inl (ValueError ''inhomogeneous shape''))"

text \<open>numpy's \<^verbatim>\<open>shape\<close> of an array with at least one row.\<close>

fun shape :: "ndarray \<Rightarrow> nat list" where
  "shape (Array1 xs) = [length xs]"
| "shape (Array2 rs) = [length rs, length (hd rs)]"

subsection \<open>Scalar operations on floats\<close>

text \<open>\<^verbatim>\<open>x / y\<close> on numpy scalars: never raises (division by zero gives an infinity or NaN).\<close>

fun fl_div :: "npfloat \<Rightarrow> npfloat \<Rightarrow> npfloat" where
  "fl_div NaN _ = NaN"
| "fl_div _ NaN = NaN"
| "fl_div (Fin a) (Fin b) =
     (if b \<noteq> 0 then Fin (a / b)
      else if a = 0 then NaN else if 0 < a then PosInf else NegInf)"
| "fl_div (Fin a) _ = Fin 0"
| "fl_div PosInf (Fin b) = (if 0 \<le> b then PosInf else NegInf)"
| "fl_div NegInf (Fin b) = (if 0 \<le> b then NegInf else PosInf)"
| "fl_div _ _ = NaN"

text \<open>\<^verbatim>\<open>x <= y\<close> on floats: false as soon as one side is NaN.\<close>

fun fl_le :: "npfloat \<Rightarrow> npfloat \<Rightarrow> bool" where
  "fl_le NaN _ = False"
| "fl_le _ NaN = False"
| "fl_le (Fin a) (Fin b) = (a \<le> b)"
| "fl_le NegInf _ = True"
| "fl_le _ PosInf = True"
| "fl_le _ _ = False"

text \<open>Boolean-mask indexing \<^verbatim>\<open>xs[mask]\<close>, for a mask as long as the array.\<close>

definition mask_select :: "'a list \<Rightarrow> bool list \<Rightarrow> 'a list" where
  "mask_select xs bs = map fst (filter snd (zip xs bs))"

section \<open>The numeric libraries and the trained models\<close>

text \<open>
  scipy, numpy and the two pickled scikit-learn models are not part of the repository:
  they are the fields of a record that every function of the pipeline takes. A routine
  that validates its input and raises returns \<open>error + _\<close>; a numeric reduction returns a
  float (possibly NaN). \<open>welch\<close> returns the pair \<^verbatim>\<open>(freqs, psd)\<close>, two arrays of one
  length. \<open>filter_clf_predict\<close> and \<open>clf_predict\<close> stand for \<^verbatim>\<open>predict(X)[0]\<close> on a
  one-row \<^verbatim>\<open>X\<close>, \<open>inverse_transform\<close> for \<^verbatim>\<open>inverse_transform([c])[0]\<close>, and
  \<open>format_2f\<close> for Python's \<^verbatim>\<open>'{:.2f}'\<close> formatting.
\<close>

datatype nan_policy = Propagate | Omit

record library =
  butter :: "nat \<Rightarrow> real list \<Rightarrow> string \<Rightarrow> error + (signal \<times> signal)"
  filtfilt :: "signal \<Rightarrow> signal \<Rightarrow> signal \<Rightarrow> error + signal"
  welch :: "signal \<Rightarrow> real \<Rightarrow> nat \<Rightarrow> signal \<times> signal"
  trapezoid :: "signal \<Rightarrow> signal \<Rightarrow> npfloat"
  np_mean :: "signal \<Rightarrow> npfloat"
  np_nanmean :: "signal \<Rightarrow> npfloat"
  np_var :: "signal \<Rightarrow> npfloat"
  np_std :: "signal \<Rightarrow> npfloat"
  skew :: "nan_policy \<Rightarrow> signal \<Rightarrow> npfloat"
  kurtosis :: "nan_policy \<Rightarrow> signal \<Rightarrow> npfloat"
  filter_clf_predict :: "ndarray \<Rightarrow> error + int"
  inverse_transform :: "int \<Rightarrow> error + string"
  clf_predict :: "ndarray \<Rightarrow> error + int"
  format_2f :: "real \<Rightarrow> string"

section \<open>Filtering functions\<close>

text \<open>
  \<^verbatim>\<open>bandpass_filter(signal, fs, lowcut, highcut, order=4)\<close>. \<^verbatim>\<open>fs\<close> and the cut-offs are
  Python numbers, so the two divisions by \<^verbatim>\<open>nyq\<close> raise when it is zero.
\<close>

definition bandpass_filter ::
    "library \<Rightarrow> signal \<Rightarrow> real \<Rightarrow> real \<Rightarrow> real \<Rightarrow> nat \<Rightarrow> error + signal" where
  "bandpass_filter lib sig fs lowcut highcut order =
     (let nyq = 0.5 * fs in
      if nyq = 0 then Inl ZeroDivisionError
      else
        (let low = lowcut / nyq; high = highcut / nyq in
         case butter lib order [low, high] ''band'' of
           Inl e \<Rightarrow> Inl e
         | Inr (b, a) \<Rightarrow> filtfilt lib b a sig))"

definition filter_biting :: "library \<Rightarrow> signal \<Rightarrow> real \<Rightarrow> error + signal" where
  "filter_biting lib sig fs = bandpass_filter lib sig fs 20 50 4"

definition filter_blink :: "library \<Rightarrow> signal \<Rightarrow> real \<Rightarrow> error + signal" where
  "filter_blink lib sig fs = bandpass_filter lib sig fs 0.1 4 4"

definition filter_eyebrow :: "library \<Rightarrow> signal \<Rightarrow> real \<Rightarrow> error + signal" where
  "filter_eyebrow lib sig fs = bandpass_filter lib sig fs 25 40 4"

definition filter_jaw :: "library \<Rightarrow> signal \<Rightarrow> real \<Rightarrow> error + signal" where
  "filter_jaw lib sig fs = bandpass_filter lib sig fs 20 50 4"

definition compute_band_power :: "library \<Rightarrow> signal \<Rightarrow> real \<Rightarrow> real \<Rightarrow> real \<Rightarrow> npfloat" where
  "compute_band_power lib sig fs lowcut highcut =
     (let (freqs, psd) = welch lib sig fs (min 256 (length sig));
          band_idx = map (\<lambda>f. fl_le (Fin lowcut) f \<and> fl_le f (Fin highcut)) freqs;
          band_power = trapezoid lib (mask_select psd band_idx) (mask_select freqs band_idx)
      in band_power)"

section \<open>Filter selection\<close>

text \<open>
  Line 61 of \<^verbatim>\<open>extract_filter_features\<close>:
  \<^verbatim>\<open>avg_high / avg_low if avg_low != 0 else np.inf\<close>.
\<close>

definition power_ratio :: "npfloat \<Rightarrow> npfloat \<Rightarrow> npfloat" where
  "power_ratio avg_high avg_low =
     (if avg_low \<noteq> Fin 0 then fl_div avg_high avg_low else PosInf)"

definition avg_high_freq_power :: "library \<Rightarrow> matrix \<Rightarrow> real \<Rightarrow> npfloat" where
  "avg_high_freq_power lib snippet fs =
     np_mean lib (map (\<lambda>channel. compute_band_power lib channel fs 20 50) snippet)"

definition avg_low_freq_power :: "library \<Rightarrow> matrix \<Rightarrow> real \<Rightarrow> npfloat" where
  "avg_low_freq_power lib snippet fs =
     np_mean lib (map (\<lambda>channel. compute_band_power lib channel fs 0.1 4) snippet)"

definition extract_filter_features :: "library \<Rightarrow> matrix \<Rightarrow> real \<Rightarrow> signal" where
  "extract_filter_features lib snippet fs =
     (let avg_variance = np_mean lib (map (np_var lib) snippet);
          avg_skew = np_nanmean lib (map (skew lib Omit) snippet);
          avg_kurtosis = np_nanmean lib (map (kurtosis lib Omit) snippet);
          avg_high = avg_high_freq_power lib snippet fs;
          avg_low = avg_low_freq_power lib snippet fs
      in [avg_variance, avg_skew, avg_kurtosis, avg_high, avg_low,
          power_ratio avg_high avg_low])"

type_synonym filter_func = "signal \<Rightarrow> real \<Rightarrow> error + signal"

text \<open>The dictionary of \<^verbatim>\<open>choose_filter\<close>, from the decoded class name to the filter.\<close>

definition filter_mapping :: "library \<Rightarrow> string \<rightharpoonup> filter_func" where
  "filter_mapping lib =
     [''Biting'' \<mapsto> filter_biting lib,
      ''Blink'' \<mapsto> filter_blink lib,
      ''Eyebrow'' \<mapsto> filter_eyebrow lib,
      ''Jaw Clench'' \<mapsto> filter_jaw lib]"

text \<open>\<^verbatim>\<open>mapping.get(filter_name, filter_jaw)\<close> is the \<open>case\<close> on the lookup.\<close>

definition choose_filter :: "library \<Rightarrow> matrix \<Rightarrow> real \<Rightarrow> error + (filter_func \<times> string)" where
  "choose_filter lib snippet fs =
     (let features = Array2 [extract_filter_features lib snippet fs] in
      case filter_clf_predict lib features of
        Inl e \<Rightarrow> Inl e
      | Inr pred_class \<Rightarrow>
          (case inverse_transform lib pred_class of
             Inl e \<Rightarrow> Inl e
           | Inr filter_name \<Rightarrow>
               Inr (case filter_mapping lib filter_name of
                      None \<Rightarrow> filter_jaw lib
                    | Some filter_func \<Rightarrow> filter_func,
                    filter_name)))"

definition apply_filter_to_snippet :: "library \<Rightarrow> matrix \<Rightarrow> real \<Rightarrow> error + (ndarray \<times> string)" where
  "apply_filter_to_snippet lib snippet fs =
     (case choose_filter lib snippet fs of
        Inl e \<Rightarrow> Inl e
      | Inr (filter_func, filter_name) \<Rightarrow>
          (case traverse (\<lambda>channel. filter_func channel fs) snippet of
             Inl e \<Rightarrow> Inl e
           | Inr filtered \<Rightarrow>
               (case np_array filtered of
                  Inl e \<Rightarrow> Inl e
                | Inr arr \<Rightarrow> Inr (arr, filter_name))))"

section \<open>Feature extraction\<close>

text \<open>
  \<^verbatim>\<open>extract_features_from_sample\<close> of the real-time path. The \<^verbatim>\<open>for\<close> loop extends the
  feature vector by two entries per channel; the four \<^verbatim>\<open>axis=1\<close> reductions follow. On a
  1-D array the loop variable is a scalar, whose \<^verbatim>\<open>len\<close> raises, and on the empty 1-D
  array the loop is skipped and \<^verbatim>\<open>mean(axis=1)\<close> raises.
\<close>

definition psd_step :: "library \<Rightarrow> real \<Rightarrow> signal \<Rightarrow> signal \<Rightarrow> signal" where
  "psd_step lib sfreq feature_vector channel =
     (let (freqs, psd) = welch lib channel sfreq (min 256 (length channel))
      in feature_vector @ [np_mean lib psd, np_std lib psd])"

definition extract_features_from_sample :: "library \<Rightarrow> ndarray \<Rightarrow> real \<Rightarrow> error + ndarray" where
  "extract_features_from_sample lib eeg_sample sfreq =
     (case eeg_sample of
        Array1 xs \<Rightarrow> (if xs = [] then Inl AxisError else Inl TypeError)
      | Array2 chans \<Rightarrow>
          (let feature_vector = foldl (psd_step lib sfreq) [] chans;
               feature_vector = feature_vector @ map (np_mean lib) chans;
               feature_vector = feature_vector @ map (np_std lib) chans;
               feature_vector = feature_vector @ map (skew lib Propagate) chans;
               feature_vector = feature_vector @ map (kurtosis lib Propagate) chans
           in Inr (Array2 [feature_vector])))"

text \<open>
  \<^verbatim>\<open>extract_features\<close> of the offline trainer
  (\<^verbatim>\<open>src/classifier/action_model/action_classifier.py\<close>), over a 3-D array given as the
  list of its samples. Here the loop extends the vector twice per channel.
\<close>

definition psd_step_trainer :: "library \<Rightarrow> real \<Rightarrow> signal \<Rightarrow> signal \<Rightarrow> signal" where
  "psd_step_trainer lib sfreq feature_vector channel =
     (let (freqs, psd) = welch lib channel sfreq (min 256 (length channel));
          feature_vector = feature_vector @ [np_mean lib psd];
          feature_vector = feature_vector @ [np_std lib psd]
      in feature_vector)"

definition sample_features :: "library \<Rightarrow> real \<Rightarrow> matrix \<Rightarrow> signal" where
  "sample_features lib sfreq sample =
     (let feature_vector = foldl (psd_step_trainer lib sfreq) [] sample;
          feature_vector = feature_vector @ map (np_mean lib) sample;
          feature_vector = feature_vector @ map (np_std lib) sample;
          feature_vector = feature_vector @ map (skew lib Propagate) sample;
          feature_vector = feature_vector @ map (kurtosis lib Propagate) sample
      in feature_vector)"

definition extract_features :: "library \<Rightarrow> matrix list \<Rightarrow> real \<Rightarrow> error + ndarray" where
  "extract_features lib eeg_data sfreq =
     (let features = foldl (\<lambda>features sample. features @ [sample_features lib sfreq sample])
                       [] eeg_data
      in np_array features)"

section \<open>The polling loop\<close>

text \<open>
  What \<^verbatim>\<open>pd.read_csv\<close> returns: the header and the data rows, one float per cell
  (columns that pandas cannot read as numbers are outside this model).
\<close>

record dataframe =
  df_columns :: "string list"
  df_rows :: "npfloat list list"

text \<open>
  \<^verbatim>\<open>df.iloc[:, 1:].to_numpy().T\<close>: one row per column after the first, one entry per
  data row. A header-only file gives rows of length zero, not zero rows.
\<close>

definition eeg_data_of :: "dataframe \<Rightarrow> matrix" where
  "eeg_data_of df = map (\<lambda>j. map (\<lambda>r. r ! j) (df_rows df)) [1 ..< length (df_columns df)]"

text \<open>\<^verbatim>\<open>xs[start:stop]\<close> with Python's treatment of negative and too large indices.\<close>

definition py_slice :: "'a list \<Rightarrow> int \<Rightarrow> int \<Rightarrow> 'a list" where
  "py_slice xs start stop =
     (let n = int (length xs);
          s = (if start < 0 then max 0 (start + n) else min start n);
          e = (if stop < 0 then max 0 (stop + n) else min stop n)
      in take (nat (e - s)) (drop (nat s) xs))"

text \<open>
  \<^verbatim>\<open>random.randint(a, b)\<close>: an integer of the closed range, chosen by the generator's
  next raw output; an empty range raises.
\<close>

definition randint :: "int \<Rightarrow> int \<Rightarrow> nat \<Rightarrow> error + int" where
  "randint a b raw =
     (if b < a then Inl (ValueError ''empty range for randrange()'')
      else Inr (a + int raw mod (b - a + 1)))"

text \<open>\<^verbatim>\<open>snippet_length = int(256 * 2.5)\<close>.\<close>

definition snippet_length :: nat where
  "snippet_length = nat \<lfloor>(256 :: real) * 2.5\<rfloor>"

text \<open>Lines 134 to 141: the window of the snippet that is classified.\<close>

definition select_snippet :: "nat \<Rightarrow> matrix \<Rightarrow> nat \<Rightarrow> error + matrix" where
  "select_snippet raw eeg_data n_timepoints =
     (if n_timepoints > snippet_length then
        (case randint 0 (int n_timepoints - int snippet_length) raw of
           Inl e \<Rightarrow> Inl e
         | Inr start_idx \<Rightarrow>
             Inr (map (\<lambda>row. py_slice row start_idx (start_idx + int snippet_length)) eeg_data))
      else Inr eeg_data)"

text \<open>The global variables of the script, and what it has printed (one entry per line).\<close>

record state =
  processed_files :: "string set"
  predicted_action :: string
  stdout :: "string list"

text \<open>
  What one poll of the loop sees of the world: the directory listing, the content of each
  file, and, for the file being processed, the generator's raw output and the two
  readings of \<^verbatim>\<open>time.time()\<close>.
\<close>

record poll_env =
  listdir :: "string list"
  read_csv :: "string \<Rightarrow> error + dataframe"
  entropy :: "string \<Rightarrow> nat"
  time_before :: "string \<Rightarrow> real"
  time_after :: "string \<Rightarrow> real"

text \<open>
  The loop either goes on with a new state, or an exception that nothing catches ends the
  process; the state at that moment is kept for inspection.
\<close>

datatype outcome = Running state | Crashed error state

text \<open>How the attempt on one file ended (for the trace of a run; not program state).\<close>

datatype status = ReadFailed | Completed | Raised

definition print :: "string \<Rightarrow> state \<Rightarrow> state" where
  "print line st = st\<lparr>stdout := stdout st @ [line]\<rparr>"

definition action_mapping :: "int \<rightharpoonup> string" where
  "action_mapping = [0 \<mapsto> ''Biting'', 1 \<mapsto> ''Blink'', 2 \<mapsto> ''Eyebrow'', 3 \<mapsto> ''Jaw Clench'']"

definition sfreq :: real where
  "sfreq = 256"

text \<open>
  The body of \<^verbatim>\<open>for selected_file in sorted(new_files)\<close>. Only \<^verbatim>\<open>pd.read_csv\<close> is
  inside the \<^verbatim>\<open>try\<close>; its handler prints and goes to the next file.
\<close>

definition process_file :: "library \<Rightarrow> poll_env \<Rightarrow> state \<Rightarrow> string \<Rightarrow> status \<times> outcome" where
  "process_file lib env st selected_file =
     (case read_csv env selected_file of
        Inl e \<Rightarrow>
          (ReadFailed,
           Running (print (''Error reading file '' @ selected_file @ '' : '' @ exc_msg e) st))
      | Inr df \<Rightarrow>
          if df_columns df = [] then (Raised, Crashed IndexError st)
          else
            (let eeg_data = eeg_data_of df;
                 n_timepoints = length (df_rows df)
             in case select_snippet (entropy env selected_file) eeg_data n_timepoints of
                  Inl e \<Rightarrow> (Raised, Crashed e st)
                | Inr snippet \<Rightarrow>
                    (let start_time = time_before env selected_file in
                     case apply_filter_to_snippet lib snippet sfreq of
                       Inl e \<Rightarrow> (Raised, Crashed e st)
                     | Inr (snippet, chosen_filter) \<Rightarrow>
                         (let st = print (''Chosen Filter: '' @ chosen_filter) st in
                          case extract_features_from_sample lib snippet sfreq of
                            Inl e \<Rightarrow> (Raised, Crashed e st)
                          | Inr features \<Rightarrow>
                              (case clf_predict lib features of
                                 Inl e \<Rightarrow> (Raised, Crashed e st)
                               | Inr predicted_numeric \<Rightarrow>
                                   (case action_mapping predicted_numeric of
                                      None \<Rightarrow> (Raised, Crashed KeyError st)
                                    | Some action \<Rightarrow>
                                        (let st = st\<lparr>predicted_action := action\<rparr>;
                                             st = print (''Predicted Action: '' @ action) st;
                                             end_time = time_after env selected_file;
                                             latency_ms = (end_time - start_time) * 1000;
                                             st = print (''End-to-end processing latency: ''
                                                    @ format_2f lib latency_ms @ '' ms'') st;
                                             st = print [] st
                                         in (Completed,
                                             Running (st\<lparr>processed_files :=
                                               insert selected_file (processed_files st)\<rparr>)))))))))"

text \<open>The \<^verbatim>\<open>for\<close> loop over the new files; an uncaught exception ends it.\<close>

fun for_files ::
    "library \<Rightarrow> poll_env \<Rightarrow> state \<Rightarrow> string list \<Rightarrow> (string \<times> status) list \<times> outcome" where
  "for_files lib env st [] = ([], Running st)"
| "for_files lib env st (selected_file # rest) =
     (case process_file lib env st selected_file of
        (r, Crashed e st') \<Rightarrow> ([(selected_file, r)], Crashed e st')
      | (r, Running st') \<Rightarrow>
          (case for_files lib env st' rest of
             (trace, out) \<Rightarrow> ((selected_file, r) # trace, out)))"

text \<open>One pass of \<^verbatim>\<open>while True\<close>: list the directory, take the files not yet processed.\<close>

definition new_files :: "poll_env \<Rightarrow> state \<Rightarrow> string set" where
  "new_files env st = set (listdir env) - processed_files st"

definition poll :: "library \<Rightarrow> poll_env \<Rightarrow> state \<Rightarrow> (string \<times> status) list \<times> outcome" where
  "poll lib env st = for_files lib env st (sorted_list_of_set (new_files env st))"

text \<open>
  The loop never ends by itself: a run is the loop over the polls of a finite prefix of
  its life, given by what each poll sees. It returns the attempts made, in order.
\<close>

fun run ::
    "library \<Rightarrow> state \<Rightarrow> poll_env list \<Rightarrow> (string \<times> status) list \<times> outcome" where
  "run lib st [] = ([], Running st)"
| "run lib st (env # envs) =
     (case poll lib env st of
        (trace, Crashed e st') \<Rightarrow> (trace, Crashed e st')
      | (trace, Running st') \<Rightarrow>
          (case run lib st' envs of (trace', out) \<Rightarrow> (trace @ trace', out)))"

text \<open>
  The state before the first poll: \<^verbatim>\<open>processed_files = set(os.listdir(buffer_dir))\<close> and
  \<^verbatim>\<open>predicted_action = "None"\<close>.
\<close>

definition startup :: "string list \<Rightarrow> state" where
  "startup listing = \<lparr>processed_files = set listing, predicted_action = ''None'', stdout = []\<rparr>"

definition final_state :: "outcome \<Rightarrow> state" where
  "final_state out = (case out of Running st \<Rightarrow> st | Crashed e st \<Rightarrow> st)"

definition attempted :: "(string \<times> status) list \<Rightarrow> string list" where
  "attempted trace = map fst trace"

definition completed :: "(string \<times> status) list \<Rightarrow> string list" where
  "completed trace = map fst (filter (\<lambda>a. snd a = Completed) trace)"

section \<open>Properties named by the specification\<close>

text \<open>
  The schema of the action feature vector as the specification's data model words it:
  per channel, in channel order, the mean and then the standard deviation of the
  channel's Welch estimate; then the channels' means, standard deviations, skewnesses
  and kurtoses.
\<close>

definition action_feature_vector :: "library \<Rightarrow> real \<Rightarrow> matrix \<Rightarrow> signal" where
  "action_feature_vector lib fs chans =
     concat (map (\<lambda>channel.
               [np_mean lib (snd (welch lib channel fs (min 256 (length channel)))),
                np_std lib (snd (welch lib channel fs (min 256 (length channel))))]) chans)
     @ map (np_mean lib) chans
     @ map (np_std lib) chans
     @ map (skew lib Propagate) chans
     @ map (kurtosis lib Propagate) chans"

text \<open>
  In a trace, no file is attempted again after an attempt on it has completed.
\<close>

fun no_reattempt :: "(string \<times> status) list \<Rightarrow> bool" where
  "no_reattempt [] = True"
| "no_reattempt (a # rest) =
     ((if snd a = Completed then fst a \<notin> set (attempted rest) else True) \<and> no_reattempt rest)"

section \<open>A test double of the libraries\<close>

text \<open>
  To run the pipeline on concrete inputs the library record needs a value. This one
  keeps what the examples below depend on: \<open>butter\<close> returns the \<open>2 * order + 1\<close>
  coefficients of a band filter, and \<open>filtfilt\<close> rejects, as scipy's does, an input that
  is not longer than its default padding \<^verbatim>\<open>3 * max(len(a), len(b))\<close>, and otherwise
  returns an array as long as its input. The numeric reductions and the two models are
  constant.
\<close>

fun decimal :: "nat \<Rightarrow> string" where
  "decimal n =
     (if n < 10 then [''0123456789'' ! n]
      else decimal (n div 10) @ [''0123456789'' ! (n mod 10)])"

definition test_format_2f :: "real \<Rightarrow> string" where
  "test_format_2f x =
     (let n = nat \<lfloor>\<bar>x\<bar> * 100 + 1 / 2\<rfloor>
      in (if x < 0 then ''-'' else []) @ decimal (n div 100) @ ''.''
         @ [''0123456789'' ! (n div 10 mod 10), ''0123456789'' ! (n mod 10)])"

definition test_library :: library where
  "test_library =
     \<lparr>butter = (\<lambda>order wn btype.
         Inr (replicate (2 * order + 1) (Fin 1), replicate (2 * order + 1) (Fin 1))),
      filtfilt = (\<lambda>b a x.
         if length x \<le> 3 * max (length a) (length b)
         then Inl (ValueError ''The length of the input vector x must be greater than padlen'')
         else Inr x),
      welch = (\<lambda>x fs nperseg. ([], [])),
      trapezoid = (\<lambda>y x. Fin 0),
      np_mean = (\<lambda>xs. Fin 0),
      np_nanmean = (\<lambda>xs. Fin 0),
      np_var = (\<lambda>xs. Fin 0),
      np_std = (\<lambda>xs. Fin 0),
      skew = (\<lambda>p xs. Fin 0),
      kurtosis = (\<lambda>p xs. Fin 0),
      filter_clf_predict = (\<lambda>X. Inr 1),
      inverse_transform = (\<lambda>c. Inr ''Blink''),
      clf_predict = (\<lambda>X. Inr 1),
      format_2f = test_format_2f\<rparr>"

text \<open>
  The same double with reductions that return different values (the number of samples,
  shifted by a constant per reduction), so that the layout of a feature vector shows.
\<close>

definition probe_library :: library where
  "probe_library =
     test_library
       \<lparr>np_mean := (\<lambda>xs. Fin (real (length xs))),
        np_std := (\<lambda>xs. Fin (10 + real (length xs))),
        skew := (\<lambda>p xs. Fin (20 + real (length xs))),
        kurtosis := (\<lambda>p xs. Fin (30 + real (length xs)))\<rparr>"

text \<open>
  A recording of \<open>n\<close> samples under the header that \<^verbatim>\<open>record_data.py\<close> writes: the
  time column and five channels, each channel constant.
\<close>

definition recording :: "nat \<Rightarrow> dataframe" where
  "recording n =
     \<lparr>df_columns = [''timestamps'', ''TP9'', ''AF7'', ''AF8'', ''TP10'', ''Right AUX''],
      df_rows = replicate n [Fin 0, Fin 1, Fin 2, Fin 3, Fin 4, Fin 5]\<rparr>"

text \<open>A poll that finds one file in the buffer directory.\<close>

definition one_file :: "string \<Rightarrow> error + dataframe \<Rightarrow> poll_env" where
  "one_file name content =
     \<lparr>listdir = [name], read_csv = (\<lambda>f. content), entropy = (\<lambda>f. 7),
      time_before = (\<lambda>f. 10), time_after = (\<lambda>f. 10 + 1 / 80)\<rparr>"

definition unreadable :: "error + dataframe" where
  "unreadable = Inl (Exception ''EmptyDataError'' ''No columns to parse from file'')"

section \<open>The two feature extractors\<close>

lemma psd_step_trainer_eq: "psd_step_trainer lib fs acc ch = psd_step lib fs acc ch"
  by (simp add: psd_step_trainer_def psd_step_def split: prod.split)

lemma foldl_psd_step:
  "foldl (psd_step lib fs) acc chans =
     acc @ concat (map (\<lambda>channel.
               [np_mean lib (snd (welch lib channel fs (min 256 (length channel)))),
                np_std lib (snd (welch lib channel fs (min 256 (length channel))))]) chans)"
  by (induction chans arbitrary: acc) (simp_all add: psd_step_def split: prod.split)

lemma length_concat_pairs: "length (concat (map (\<lambda>x. [f x, g x]) xs)) = 2 * length xs"
  by (induction xs) simp_all

lemma np_array_single: "np_array [v] = Inr (Array2 [v])"
  by (simp add: np_array_def)

text \<open>
  C2. On every channels-by-timepoints matrix and every sampling rate, the trainer's
  \<^verbatim>\<open>extract_features\<close>, given the one-sample batch, returns what the real-time path's
  \<^verbatim>\<open>extract_features_from_sample\<close> returns: the same one-row array, entry for entry.
\<close>

theorem extract_features_single_sample:
  "extract_features lib [sample] fs = extract_features_from_sample lib (Array2 sample) fs"
proof -
  have "foldl (psd_step_trainer lib fs) [] sample = foldl (psd_step lib fs) [] sample"
    by (rule arg_cong [where f = "\<lambda>h. foldl h [] sample"])
       (simp add: psd_step_trainer_eq fun_eq_iff)
  then show ?thesis
    by (simp add: extract_features_def extract_features_from_sample_def sample_features_def
        np_array_single)
qed

lemma nth_concat_pairs:
  "i < length xs \<Longrightarrow>
     concat (map (\<lambda>x. [f x, g x]) xs) ! (2 * i) = f (xs ! i)
   \<and> concat (map (\<lambda>x. [f x, g x]) xs) ! (2 * i + 1) = g (xs ! i)"
proof (induction xs arbitrary: i)
  case Nil
  then show ?case by simp
next
  case (Cons x xs)
  then show ?case by (cases i) simp_all
qed

text \<open>
  C3. For a window of \<open>C\<close> channels the real-time extractor returns the one-row array
  whose row is the schema of the data model: per channel, in channel order, the mean and
  then the standard deviation of its Welch estimate with segment length
  \<open>min 256 (length channel)\<close>, then the \<open>C\<close> means, the \<open>C\<close> standard deviations,
  the \<open>C\<close> skewnesses and the \<open>C\<close> kurtoses of the channels. It has
  \<open>2C + 4C = 6C\<close> entries; the entries of channel \<open>i\<close> stand at the positions
  \<open>2i\<close>, \<open>2i + 1\<close>, \<open>2C + i\<close>, \<open>3C + i\<close>, \<open>4C + i\<close> and \<open>5C + i\<close>.
\<close>

theorem extract_features_from_sample_schema:
  "extract_features_from_sample lib (Array2 chans) fs
     = Inr (Array2 [action_feature_vector lib fs chans])
   \<and> length (action_feature_vector lib fs chans) = 2 * length chans + 4 * length chans
   \<and> length (action_feature_vector lib fs chans) = 6 * length chans
   \<and> (\<forall>i < length chans.
         action_feature_vector lib fs chans ! (2 * i)
           = np_mean lib (snd (welch lib (chans ! i) fs (min 256 (length (chans ! i)))))
       \<and> action_feature_vector lib fs chans ! (2 * i + 1)
           = np_std lib (snd (welch lib (chans ! i) fs (min 256 (length (chans ! i)))))
       \<and> action_feature_vector lib fs chans ! (2 * length chans + i) = np_mean lib (chans ! i)
       \<and> action_feature_vector lib fs chans ! (3 * length chans + i) = np_std lib (chans ! i)
       \<and> action_feature_vector lib fs chans ! (4 * length chans + i)
           = skew lib Propagate (chans ! i)
       \<and> action_feature_vector lib fs chans ! (5 * length chans + i)
           = kurtosis lib Propagate (chans ! i))"
proof -
  let ?p = "\<lambda>channel. [np_mean lib (snd (welch lib channel fs (min 256 (length channel)))),
                np_std lib (snd (welch lib channel fs (min 256 (length channel))))]"
  have eq: "extract_features_from_sample lib (Array2 chans) fs
     = Inr (Array2 [action_feature_vector lib fs chans])"
    by (simp add: extract_features_from_sample_def action_feature_vector_def foldl_psd_step)
  have len: "length (action_feature_vector lib fs chans) = 6 * length chans"
    by (simp add: action_feature_vector_def length_concat_pairs)
  have lp: "length (concat (map ?p chans)) = 2 * length chans"
    by (rule length_concat_pairs)
  have idx: "action_feature_vector lib fs chans ! (2 * i)
           = np_mean lib (snd (welch lib (chans ! i) fs (min 256 (length (chans ! i)))))
       \<and> action_feature_vector lib fs chans ! (2 * i + 1)
           = np_std lib (snd (welch lib (chans ! i) fs (min 256 (length (chans ! i)))))
       \<and> action_feature_vector lib fs chans ! (2 * length chans + i) = np_mean lib (chans ! i)
       \<and> action_feature_vector lib fs chans ! (3 * length chans + i) = np_std lib (chans ! i)
       \<and> action_feature_vector lib fs chans ! (4 * length chans + i)
           = skew lib Propagate (chans ! i)
       \<and> action_feature_vector lib fs chans ! (5 * length chans + i)
           = kurtosis lib Propagate (chans ! i)" if i: "i < length chans" for i
  proof -
    from nth_concat_pairs [OF i, of "\<lambda>c. np_mean lib (snd (welch lib c fs (min 256 (length c))))"
        "\<lambda>c. np_std lib (snd (welch lib c fs (min 256 (length c))))"]
    have a: "concat (map ?p chans) ! (2 * i)
               = np_mean lib (snd (welch lib (chans ! i) fs (min 256 (length (chans ! i)))))"
      and b: "concat (map ?p chans) ! (2 * i + 1)
               = np_std lib (snd (welch lib (chans ! i) fs (min 256 (length (chans ! i)))))"
      by simp_all
    from i have l0: "2 * i < 2 * length chans" and l1: "2 * i + 1 < 2 * length chans"
      by simp_all
    show ?thesis
      unfolding action_feature_vector_def
      using i a b l0 l1 by (simp add: nth_append lp del: One_nat_def)
  qed
  from eq len idx show ?thesis by simp
qed

text \<open>
  Two channels, of one and of two samples: the vector has twelve entries, and the
  entries of the second channel stand where the theorem says.
\<close>

theorem extract_features_from_sample_schema_witness:
  "extract_features_from_sample probe_library (Array2 [[Fin 5], [Fin 6, Fin 7]]) 256
     = Inr (Array2 [[Fin 0, Fin 10, Fin 0, Fin 10, Fin 1, Fin 2, Fin 11, Fin 12,
                     Fin 21, Fin 22, Fin 31, Fin 32]])
   \<and> action_feature_vector probe_library 256 [[Fin 5], [Fin 6, Fin 7]] ! (2 * 2 + 1) = Fin 2
   \<and> action_feature_vector probe_library 256 [[Fin 5], [Fin 6, Fin 7]] ! (5 * 2 + 1) = Fin 32"
proof -
  have v: "action_feature_vector probe_library 256 [[Fin 5], [Fin 6, Fin 7]]
             = [Fin 0, Fin 10, Fin 0, Fin 10, Fin 1, Fin 2, Fin 11, Fin 12,
                Fin 21, Fin 22, Fin 31, Fin 32]"
    by (simp add: action_feature_vector_def probe_library_def test_library_def)
  have m: "np_mean probe_library [Fin 6, Fin 7] = Fin 2"
    and k: "kurtosis probe_library Propagate [Fin 6, Fin 7] = Fin 32"
    by (simp_all add: probe_library_def test_library_def)
  have i: "(1::nat) < length [[Fin 5], [Fin 6, Fin 7]]"
    by simp
  from extract_features_from_sample_schema [of probe_library "[[Fin 5], [Fin 6, Fin 7]]" 256]
  have e: "extract_features_from_sample probe_library (Array2 [[Fin 5], [Fin 6, Fin 7]]) 256
             = Inr (Array2 [action_feature_vector probe_library 256 [[Fin 5], [Fin 6, Fin 7]]])"
    and x: "\<forall>i < length [[Fin 5], [Fin 6 :: npfloat, Fin 7]].
         action_feature_vector probe_library 256 [[Fin 5], [Fin 6, Fin 7]]
             ! (2 * length [[Fin 5], [Fin 6 :: npfloat, Fin 7]] + i)
           = np_mean probe_library ([[Fin 5], [Fin 6, Fin 7]] ! i)
       \<and> action_feature_vector probe_library 256 [[Fin 5], [Fin 6, Fin 7]]
             ! (5 * length [[Fin 5], [Fin 6 :: npfloat, Fin 7]] + i)
           = kurtosis probe_library Propagate ([[Fin 5], [Fin 6, Fin 7]] ! i)"
    by blast+
  from x i have "action_feature_vector probe_library 256 [[Fin 5], [Fin 6, Fin 7]] ! (2 * 2 + 1)
                   = np_mean probe_library [Fin 6, Fin 7]
       \<and> action_feature_vector probe_library 256 [[Fin 5], [Fin 6, Fin 7]] ! (5 * 2 + 1)
                   = kurtosis probe_library Propagate [Fin 6, Fin 7]"
    by (auto dest!: spec [of _ 1])
  with e v m k show ?thesis by simp
qed

section \<open>Filter selection and conditioning\<close>



lemma filter_mapping_unknown:
  "name \<notin> {''Biting'', ''Blink'', ''Eyebrow'', ''Jaw Clench''} \<Longrightarrow> filter_mapping lib name = None"
  by (simp add: filter_mapping_def)

text \<open>
  C9. Once the filter model has predicted a class and the label codec has decoded it to
  a name, \<^verbatim>\<open>choose_filter\<close> returns a filter together with that name, whatever the name
  is; for a name outside the four keys of the dictionary the filter is \<^verbatim>\<open>filter_jaw\<close>,
  the 4th-order band filter from 20 to 50 Hz.
\<close>

theorem choose_filter_fallback:
  assumes "filter_clf_predict lib (Array2 [extract_filter_features lib snippet fs]) = Inr c"
    and "inverse_transform lib c = Inr name"
  shows "(\<exists>f. choose_filter lib snippet fs = Inr (f, name))
    \<and> (name \<notin> {''Biting'', ''Blink'', ''Eyebrow'', ''Jaw Clench''} \<longrightarrow>
         choose_filter lib snippet fs = Inr (filter_jaw lib, name)
         \<and> (\<forall>channel. filter_jaw lib channel fs = bandpass_filter lib channel fs 20 50 4))"
  using assms by (simp add: choose_filter_def filter_mapping_unknown filter_jaw_def)

text \<open>The fallback at work: the codec decodes to \<open>''Frown''\<close>, which is no key.\<close>

theorem choose_filter_fallback_witness:
  "choose_filter (test_library\<lparr>inverse_transform := (\<lambda>c. Inr ''Frown'')\<rparr>) [[Fin 1]] 256
     = Inr (filter_jaw (test_library\<lparr>inverse_transform := (\<lambda>c. Inr ''Frown'')\<rparr>), ''Frown'')"
  using choose_filter_fallback [of "test_library\<lparr>inverse_transform := (\<lambda>c. Inr ''Frown'')\<rparr>"
      "[[Fin 1]]" 256 1 "''Frown''"]
  by (simp add: test_library_def)

lemma traverse_Inr_iff:
  "traverse f xs = Inr ys \<longleftrightarrow>
     length ys = length xs \<and> (\<forall>i < length xs. f (xs ! i) = Inr (ys ! i))"
proof (induction xs arbitrary: ys)
  case Nil
  then show ?case by auto
next
  case (Cons x xs)
  show ?case
  proof (cases "f x")
    case (Inl e)
    then show ?thesis by (auto simp: nth_Cons split: nat.splits)
  next
    case (Inr y)
    show ?thesis
    proof (cases "traverse f xs")
      case (Inl e)
      with Cons.IH [of "tl ys"] Inr show ?thesis
        by (cases ys) (auto simp: nth_Cons split: nat.splits)
    next
      case r: (Inr zs)
      with Cons.IH [of zs] Cons.IH [of "tl ys"] Inr show ?thesis
        by (cases ys) (auto simp: nth_Cons less_Suc_eq_0_disj split: nat.splits)
    qed
  qed
qed

lemma traverse_succeeds:
  "\<forall>x \<in> set xs. \<exists>y. f x = Inr y \<Longrightarrow> \<exists>ys. traverse f xs = Inr ys"
  by (induction xs) auto

lemma choose_filter_known:
  assumes "filter_clf_predict lib (Array2 [extract_filter_features lib snippet fs]) = Inr c"
    and "inverse_transform lib c = Inr name"
    and "(name, lo, hi) \<in> {(''Biting'', 20, 50), (''Blink'', 0.1, 4), (''Eyebrow'', 25, 40),
           (''Jaw Clench'', 20, 50)}"
  shows "\<exists>f. choose_filter lib snippet fs = Inr (f, name)
           \<and> (\<forall>channel. f channel fs = bandpass_filter lib channel fs lo hi 4)"
  using assms(3)
  by (elim insertE emptyE; clarify)
     (simp_all add: assms(1,2) choose_filter_def filter_mapping_def filter_biting_def
        filter_blink_def filter_eyebrow_def filter_jaw_def)

lemma bandpass_filter_designed:
  assumes "fs \<noteq> 0"
    and "butter lib order [lo / (0.5 * fs), hi / (0.5 * fs)] ''band'' = Inr (b, a)"
  shows "bandpass_filter lib channel fs lo hi order = filtfilt lib b a channel"
  using assms by (simp add: bandpass_filter_def Let_def)

lemma eeg_data_of_recording:
  "eeg_data_of (recording n) =
     [replicate n (Fin 1), replicate n (Fin 2), replicate n (Fin 3), replicate n (Fin 4),
      replicate n (Fin 5)]"
  by (simp add: eeg_data_of_def recording_def upt_rec map_replicate_const)

text \<open>
  C6, as stated, fails on a short window: the forward-backward filter of the library
  rejects a channel that is not longer than its padding (27 samples for the nine
  coefficients of a 4th-order band filter), so the conditioner raises on a five-channel
  window of 20 timepoints and returns no matrix.
\<close>

theorem apply_filter_to_snippet_short_window:
  "apply_filter_to_snippet test_library (eeg_data_of (recording 20)) 256
     = Inl (ValueError ''The length of the input vector x must be greater than padlen'')"
  by (simp add: eeg_data_of_recording apply_filter_to_snippet_def choose_filter_def
      filter_mapping_def filter_blink_def bandpass_filter_def test_library_def)

text \<open>
  C6, amended. Let the filter model select one of the four filter kinds for a window of
  at least one channel and \<open>n\<close> timepoints, and let the library design the 4th-order
  band filter for that kind's passband (Biting 20 to 50 Hz, Blink 0.1 to 4 Hz, Eyebrow
  25 to 40 Hz, Jaw Clench 20 to 50 Hz, each divided by the Nyquist frequency) and accept
  every channel in its forward-backward filter \<^verbatim>\<open>filtfilt\<close>, returning as many samples as
  it was given. Then the conditioner returns a 2-D array with the selected name; its
  \<open>i\<close>-th row is \<^verbatim>\<open>filtfilt\<close> with those coefficients applied to the \<open>i\<close>-th channel
  alone, and its shape is that of the window.
\<close>

theorem apply_filter_to_snippet_conditions:
  assumes pred: "filter_clf_predict lib (Array2 [extract_filter_features lib snippet fs]) = Inr c"
    and dec: "inverse_transform lib c = Inr name"
    and kind: "(name, lo, hi) \<in> {(''Biting'', 20, 50), (''Blink'', 0.1, 4),
                 (''Eyebrow'', 25, 40), (''Jaw Clench'', 20, 50)}"
    and fs: "fs \<noteq> 0"
    and design: "butter lib 4 [lo / (0.5 * fs), hi / (0.5 * fs)] ''band'' = Inr (b, a)"
    and filt: "\<forall>channel \<in> set snippet.
                 \<exists>y. filtfilt lib b a channel = Inr y \<and> length y = length channel"
    and chans: "snippet \<noteq> []"
    and rect: "\<forall>channel \<in> set snippet. length channel = n"
  shows "\<exists>rows. apply_filter_to_snippet lib snippet fs = Inr (Array2 rows, name)
           \<and> length rows = length snippet
           \<and> (\<forall>i < length snippet. filtfilt lib b a (snippet ! i) = Inr (rows ! i)
                 \<and> length (rows ! i) = n)
           \<and> shape (Array2 rows) = [length snippet, n]"
proof -
  from choose_filter_known [OF pred dec kind] obtain f where
    f: "choose_filter lib snippet fs = Inr (f, name)"
    and fb: "\<And>channel. f channel fs = bandpass_filter lib channel fs lo hi 4"
    by blast
  have ff: "(\<lambda>channel. f channel fs) = filtfilt lib b a"
    by (simp add: fun_eq_iff fb bandpass_filter_designed [OF fs design])
  from filt have "\<forall>channel \<in> set snippet. \<exists>y. filtfilt lib b a channel = Inr y"
    by blast
  then obtain rows where rows: "traverse (filtfilt lib b a) snippet = Inr rows"
    using traverse_succeeds by blast
  then have len: "length rows = length snippet"
    and each: "\<And>i. i < length snippet \<Longrightarrow> filtfilt lib b a (snippet ! i) = Inr (rows ! i)"
    by (simp_all add: traverse_Inr_iff)
  have rowlen: "length (rows ! i) = n" if "i < length snippet" for i
  proof -
    from that have m: "snippet ! i \<in> set snippet" by simp
    with filt obtain y where
      "filtfilt lib b a (snippet ! i) = Inr y" "length y = length (snippet ! i)"
      by blast
    with each [OF that] rect m show ?thesis by simp
  qed
  have all_n: "\<forall>r \<in> set rows. length r = n"
    using rowlen len by (auto simp: in_set_conv_nth)
  from chans len have ne: "rows \<noteq> []" by auto
  then have hdn: "length (hd rows) = n"
    using all_n by (cases rows) simp_all
  have arr: "np_array rows = Inr (Array2 rows)"
    using ne all_n hdn by (simp add: np_array_def list_all_iff)
  have "apply_filter_to_snippet lib snippet fs = Inr (Array2 rows, name)"
    by (simp add: apply_filter_to_snippet_def f ff rows arr)
  with len each rowlen hdn show ?thesis by auto
qed

text \<open>A window of five channels and 30 timepoints, for which the model selects Blink.\<close>

theorem apply_filter_to_snippet_conditions_witness:
  "\<exists>rows. apply_filter_to_snippet test_library (eeg_data_of (recording 30)) 256
              = Inr (Array2 rows, ''Blink'')
           \<and> shape (Array2 rows) = [5, 30]"
proof -
  let ?w = "eeg_data_of (recording 30)"
  let ?c = "replicate (2 * 4 + 1) (Fin 1)"
  have h1: "filter_clf_predict test_library (Array2 [extract_filter_features test_library ?w 256])
              = Inr 1"
    by (simp add: test_library_def)
  have h2: "inverse_transform test_library 1 = Inr ''Blink''"
    by (simp add: test_library_def)
  have h3: "(''Blink'', 0.1, 4) \<in> {(''Biting'', 20, 50), (''Blink'', 0.1, 4 :: real),
              (''Eyebrow'', 25, 40), (''Jaw Clench'', 20 :: real, 50)}"
    by simp
  have h4: "(256 :: real) \<noteq> 0"
    by simp
  have h5: "butter test_library 4 [0.1 / (0.5 * 256), 4 / (0.5 * 256)] ''band'' = Inr (?c, ?c)"
    by (simp add: test_library_def eval_nat_numeral)
  have h6: "\<forall>channel \<in> set ?w. \<exists>y. filtfilt test_library ?c ?c channel = Inr y
              \<and> length y = length channel"
    by (simp add: eeg_data_of_recording test_library_def)
  have h7: "?w \<noteq> []"
    by (simp add: eeg_data_of_recording)
  have h8: "\<forall>channel \<in> set ?w. length channel = 30"
    by (simp add: eeg_data_of_recording)
  from apply_filter_to_snippet_conditions [OF h1 h2 h3 h4 h5 h6 h7 h8]
  show ?thesis
    by (auto simp: eeg_data_of_recording)
qed

section \<open>The analysis window\<close>

lemma snippet_length_640: "snippet_length = 640"
  by (simp add: snippet_length_def)

lemma randint_range:
  assumes "a \<le> b"
  shows "\<exists>r. randint a b raw = Inr r \<and> a \<le> r \<and> r \<le> b"
proof -
  from assms have pos: "0 < b - a + 1" by simp
  have "0 \<le> int raw mod (b - a + 1)" and "int raw mod (b - a + 1) < b - a + 1"
    using pos by (rule pos_mod_sign, rule pos_mod_bound)
  with assms show ?thesis
    by (simp add: randint_def)
qed

lemma py_slice_window:
  "0 \<le> start \<Longrightarrow> start + int len \<le> int (length xs) \<Longrightarrow>
     py_slice xs start (start + int len) = take len (drop (nat start) xs)"
  by (simp add: py_slice_def Let_def min_def)

lemma length_eeg_data_of_row:
  "row \<in> set (eeg_data_of df) \<Longrightarrow> length row = length (df_rows df)"
  by (auto simp: eeg_data_of_def)

text \<open>
  C4. The window length is \<open>int(256 * 2.5) = 640\<close>. For a snippet of more than 640
  timepoints, whatever the generator's raw output, \<^verbatim>\<open>randint\<close> returns a start offset
  between 0 and \<open>timepoints - 640\<close>, and the window is, channel by channel, the 640
  consecutive samples from that offset on. For a snippet of at most 640 timepoints the
  window is the snippet itself.
\<close>

theorem select_snippet_window:
  "snippet_length = 640
   \<and> (length (df_rows df) > 640 \<longrightarrow>
        (\<exists>start. randint 0 (int (length (df_rows df)) - 640) raw = Inr start
           \<and> 0 \<le> start \<and> start \<le> int (length (df_rows df)) - 640
           \<and> select_snippet raw (eeg_data_of df) (length (df_rows df))
               = Inr (map (\<lambda>row. take 640 (drop (nat start) row)) (eeg_data_of df))
           \<and> (\<forall>row \<in> set (eeg_data_of df). length (take 640 (drop (nat start) row)) = 640)))
   \<and> (length (df_rows df) \<le> 640 \<longrightarrow>
        select_snippet raw (eeg_data_of df) (length (df_rows df)) = Inr (eeg_data_of df))"
proof (intro conjI impI)
  show "snippet_length = 640" by (rule snippet_length_640)
next
  let ?n = "length (df_rows df)"
  assume long: "640 < ?n"
  then have "(0::int) \<le> int ?n - 640" by simp
  from randint_range [OF this, of raw] obtain start where
    r: "randint 0 (int ?n - 640) raw = Inr start" and lo: "0 \<le> start"
    and hi: "start \<le> int ?n - 640"
    by blast
  have sl: "py_slice row start (start + int snippet_length) = take 640 (drop (nat start) row)"
    if "row \<in> set (eeg_data_of df)" for row
    using py_slice_window [of start 640 row] lo hi length_eeg_data_of_row [OF that]
    by (simp add: snippet_length_640)
  have sel: "select_snippet raw (eeg_data_of df) ?n
               = Inr (map (\<lambda>row. take 640 (drop (nat start) row)) (eeg_data_of df))"
    using long r sl by (simp add: select_snippet_def snippet_length_640 cong: map_cong)
  have len: "\<forall>row \<in> set (eeg_data_of df). length (take 640 (drop (nat start) row)) = 640"
    using lo hi by (auto dest!: length_eeg_data_of_row)
  from r lo hi sel len
  show "\<exists>start. randint 0 (int ?n - 640) raw = Inr start
           \<and> 0 \<le> start \<and> start \<le> int ?n - 640
           \<and> select_snippet raw (eeg_data_of df) ?n
               = Inr (map (\<lambda>row. take 640 (drop (nat start) row)) (eeg_data_of df))
           \<and> (\<forall>row \<in> set (eeg_data_of df). length (take 640 (drop (nat start) row)) = 640)"
    by blast
next
  assume "length (df_rows df) \<le> 640"
  then show "select_snippet raw (eeg_data_of df) (length (df_rows df)) = Inr (eeg_data_of df)"
    by (simp add: select_snippet_def snippet_length_640)
qed

text \<open>
  A recording of 641 samples, with raw output 7: the offset is 1 and the window holds
  640 samples per channel. A recording of 640 samples is its own window.
\<close>

theorem select_snippet_window_witness:
  "randint 0 (int 641 - 640) 7 = Inr 1
   \<and> select_snippet 7 (eeg_data_of (recording 641)) 641
       = Inr [replicate 640 (Fin 1), replicate 640 (Fin 2), replicate 640 (Fin 3),
              replicate 640 (Fin 4), replicate 640 (Fin 5)]
   \<and> select_snippet 7 (eeg_data_of (recording 640)) 640 = Inr (eeg_data_of (recording 640))"
proof -
  have n1: "length (df_rows (recording 641)) = 641"
    and n0: "length (df_rows (recording 640)) = 640"
    by (simp_all add: recording_def)
  have r: "randint 0 (int 641 - 640) 7 = Inr 1"
    by (simp add: randint_def)
  from select_snippet_window [of "recording 641" 7, THEN conjunct2, THEN conjunct1] n1 r
  have "select_snippet 7 (eeg_data_of (recording 641)) 641
          = Inr (map (\<lambda>row. take 640 (drop (nat 1) row)) (eeg_data_of (recording 641)))"
    by auto
  then have long: "select_snippet 7 (eeg_data_of (recording 641)) 641
       = Inr [replicate 640 (Fin 1), replicate 640 (Fin 2), replicate 640 (Fin 3),
              replicate 640 (Fin 4), replicate 640 (Fin 5)]"
    by (simp add: eeg_data_of_recording)
  from select_snippet_window [of "recording 640" 7, THEN conjunct2, THEN conjunct2] n0
  have short: "select_snippet 7 (eeg_data_of (recording 640)) 640
                 = Inr (eeg_data_of (recording 640))"
    by simp
  from r long short show ?thesis by blast
qed

section \<open>Runs of the polling loop\<close>



lemma processed_files_print [simp]: "processed_files (print line st) = processed_files st"
  by (simp add: print_def)

lemma stdout_print [simp]: "stdout (print line st) = stdout st @ [line]"
  by (simp add: print_def)

lemma predicted_action_print [simp]: "predicted_action (print line st) = predicted_action st"
  by (simp add: print_def)

lemma process_file_result:
  assumes "process_file lib env st f = (r, out)"
  shows "(r = ReadFailed \<and> (\<exists>e. read_csv env f = Inl e)
            \<and> (\<exists>st'. out = Running st' \<and> processed_files st' = processed_files st))
       \<or> (r = Raised \<and> (\<exists>df. read_csv env f = Inr df)
            \<and> (\<exists>e st'. out = Crashed e st' \<and> processed_files st' = processed_files st))
       \<or> (r = Completed \<and> (\<exists>df. read_csv env f = Inr df)
            \<and> (\<exists>st'. out = Running st' \<and> processed_files st' = insert f (processed_files st)))"
  using assms
  by (auto simp: process_file_def Let_def split: sum.splits option.splits if_splits prod.splits)



lemma attempted_simps [simp]:
  "attempted [] = []" "attempted (a # t) = fst a # attempted t"
  "attempted (t @ u) = attempted t @ attempted u"
  by (simp_all add: attempted_def)

lemma completed_simps [simp]:
  "completed [] = []"
  "completed (a # t) = (if snd a = Completed then fst a # completed t else completed t)"
  "completed (t @ u) = completed t @ completed u"
  by (simp_all add: completed_def)

lemma final_state_simps [simp]:
  "final_state (Running st) = st" "final_state (Crashed e st) = st"
  by (simp_all add: final_state_def)


lemma for_files_invariant:
  assumes "for_files lib env st fs = (trace, out)"
  shows "(\<exists>k \<le> length fs. attempted trace = take k fs)
       \<and> processed_files (final_state out) = processed_files st \<union> set (completed trace)"
  using assms
proof (induction fs arbitrary: st trace out)
  case Nil
  then show ?case by auto
next
  case (Cons f fs)
  obtain r o1 where p: "process_file lib env st f = (r, o1)"
    by (cases "process_file lib env st f")
  show ?case
  proof (cases o1)
    case (Crashed e st')
    with p Cons.prems have t: "trace = [(f, r)]" and o: "out = Crashed e st'"
      by simp_all
    from process_file_result [OF p] Crashed have "r = Raised" "processed_files st' = processed_files st"
      by auto
    with t o show ?thesis
      by (auto intro: exI [of _ 1])
  next
    case (Running st')
    obtain t2 o2 where rest: "for_files lib env st' fs = (t2, o2)"
      by (cases "for_files lib env st' fs")
    with p Running Cons.prems have t: "trace = (f, r) # t2" and o: "out = o2"
      by simp_all
    from Cons.IH [OF rest] obtain k where k: "k \<le> length fs" "attempted t2 = take k fs"
      and pr: "processed_files (final_state o2) = processed_files st' \<union> set (completed t2)"
      by blast
    from process_file_result [OF p] Running
    have st': "(r = ReadFailed \<and> processed_files st' = processed_files st)
             \<or> (r = Completed \<and> processed_files st' = insert f (processed_files st))"
      by auto
    have "attempted trace = take (Suc k) (f # fs)"
      using t k by simp
    moreover have "Suc k \<le> length (f # fs)"
      using k by simp
    moreover have "processed_files (final_state out) = processed_files st \<union> set (completed trace)"
      using st' pr t o by auto
    ultimately show ?thesis by blast
  qed
qed

lemma no_reattempt_distinct: "distinct (attempted t) \<Longrightarrow> no_reattempt t"
  by (induction t) auto

lemma no_reattempt_append:
  "no_reattempt (t @ u) \<longleftrightarrow>
     no_reattempt t \<and> no_reattempt u \<and> set (completed t) \<inter> set (attempted u) = {}"
  by (induction t) auto


lemma finite_new_files [simp]: "finite (new_files env st)"
  by (simp add: new_files_def)

lemma poll_invariant:
  assumes "poll lib env st = (trace, out)"
  shows "distinct (attempted trace)
       \<and> set (attempted trace) \<subseteq> set (listdir env) - processed_files st
       \<and> processed_files (final_state out) = processed_files st \<union> set (completed trace)"
proof -
  let ?fs = "sorted_list_of_set (new_files env st)"
  from assms have "for_files lib env st ?fs = (trace, out)"
    by (simp add: poll_def)
  from for_files_invariant [OF this] obtain k where
    k: "attempted trace = take k ?fs"
    and pr: "processed_files (final_state out) = processed_files st \<union> set (completed trace)"
    by blast
  have "distinct (attempted trace)"
    using k by simp
  moreover have "set (attempted trace) \<subseteq> set (listdir env) - processed_files st"
    using k set_take_subset [of k ?fs] by (simp add: new_files_def)
  ultimately show ?thesis using pr by blast
qed

lemma run_invariant:
  assumes "run lib st envs = (trace, out)"
  shows "set (attempted trace) \<subseteq> (\<Union>env \<in> set envs. set (listdir env)) - processed_files st
       \<and> processed_files (final_state out) = processed_files st \<union> set (completed trace)
       \<and> no_reattempt trace"
  using assms
proof (induction envs arbitrary: st trace out)
  case Nil
  then show ?case by auto
next
  case (Cons env envs)
  obtain t1 o1 where p: "poll lib env st = (t1, o1)"
    by (cases "poll lib env st")
  from poll_invariant [OF p] have d1: "distinct (attempted t1)"
    and a1: "set (attempted t1) \<subseteq> set (listdir env) - processed_files st"
    and p1: "processed_files (final_state o1) = processed_files st \<union> set (completed t1)"
    by blast+
  show ?case
  proof (cases o1)
    case (Crashed e st')
    with p Cons.prems have "trace = t1" "out = o1"
      by simp_all
    with d1 a1 p1 show ?thesis
      by (auto simp: no_reattempt_distinct)
  next
    case (Running st')
    obtain t2 o2 where rest: "run lib st' envs = (t2, o2)"
      by (cases "run lib st' envs")
    with p Running Cons.prems have t: "trace = t1 @ t2" and o: "out = o2"
      by simp_all
    from Cons.IH [OF rest] have
      a2: "set (attempted t2) \<subseteq> (\<Union>env \<in> set envs. set (listdir env)) - processed_files st'"
      and p2: "processed_files (final_state o2) = processed_files st' \<union> set (completed t2)"
      and n2: "no_reattempt t2"
      by blast+
    from p1 Running have st': "processed_files st' = processed_files st \<union> set (completed t1)"
      by simp
    have "set (completed t1) \<inter> set (attempted t2) = {}"
      using a2 st' by auto
    with d1 n2 have "no_reattempt trace"
      by (simp add: t no_reattempt_append no_reattempt_distinct)
    moreover have "set (attempted trace) \<subseteq> (\<Union>env \<in> set (env # envs). set (listdir env)) - processed_files st"
      using a1 a2 st' t by auto
    moreover have "processed_files (final_state out) = processed_files st \<union> set (completed trace)"
      using p2 st' t o by auto
    ultimately show ?thesis by blast
  qed
qed


lemma poll_one_file:
  "name \<notin> processed_files st \<Longrightarrow>
     poll lib (one_file name content) st =
       (case process_file lib (one_file name content) st name of
          (r, Crashed e st') \<Rightarrow> ([(name, r)], Crashed e st')
        | (r, Running st') \<Rightarrow> ([(name, r)], Running st'))"
  by (simp add: poll_def new_files_def one_file_def insert_Diff_if
      split: prod.splits outcome.splits)

lemma poll_one_file_done:
  "name \<in> processed_files st \<Longrightarrow> poll lib (one_file name content) st = ([], Running st)"
  by (simp add: poll_def new_files_def one_file_def)

lemma process_file_unreadable:
  "process_file lib (one_file name unreadable) st name =
     (ReadFailed,
      Running (print (''Error reading file '' @ name @ '' : No columns to parse from file'') st))"
  by (simp add: process_file_def one_file_def unreadable_def)









text \<open>
  C10. The state before the first poll has every file of the start-up listing in
  \<^verbatim>\<open>processed_files\<close>; in every run from that state no such file is ever attempted,
  every attempted file is one that a later listing shows and the start-up listing does
  not, and the start-up files are still in \<^verbatim>\<open>processed_files\<close> at the end.
\<close>

theorem startup_files_never_attempted:
  "processed_files (startup listing) = set listing
   \<and> set (attempted (fst (run lib (startup listing) envs))) \<inter> set listing = {}
   \<and> set (attempted (fst (run lib (startup listing) envs)))
        \<subseteq> (\<Union>env \<in> set envs. set (listdir env)) - set listing
   \<and> set listing \<subseteq> processed_files (final_state (snd (run lib (startup listing) envs)))"
proof -
  have s: "processed_files (startup listing) = set listing"
    by (simp add: startup_def)
  obtain trace out where r: "run lib (startup listing) envs = (trace, out)"
    by (cases "run lib (startup listing) envs")
  from run_invariant [OF r] s show ?thesis
    by (auto simp: r)
qed

text \<open>
  A file present at start-up is skipped by the poll that lists it; a file that appears
  later is attempted.
\<close>

theorem startup_files_never_attempted_witness:
  "run test_library (startup [''buffer_01.csv''])
       [one_file ''buffer_01.csv'' (Inr (recording 30)), one_file ''buffer_02.csv'' unreadable]
     = ([(''buffer_02.csv'', ReadFailed)],
        Running \<lparr>processed_files = {''buffer_01.csv''}, predicted_action = ''None'',
                 stdout = [''Error reading file buffer_02.csv : No columns to parse from file'']\<rparr>)
   \<and> set (attempted (fst (run test_library (startup [''buffer_01.csv''])
       [one_file ''buffer_01.csv'' (Inr (recording 30)), one_file ''buffer_02.csv'' unreadable])))
       \<inter> set [''buffer_01.csv''] = {}"
proof -
  have "run test_library (startup [''buffer_01.csv''])
       [one_file ''buffer_01.csv'' (Inr (recording 30)), one_file ''buffer_02.csv'' unreadable]
     = ([(''buffer_02.csv'', ReadFailed)],
        Running \<lparr>processed_files = {''buffer_01.csv''}, predicted_action = ''None'',
                 stdout = [''Error reading file buffer_02.csv : No columns to parse from file'']\<rparr>)"
    by (simp add: poll_one_file poll_one_file_done process_file_unreadable startup_def print_def)
  with startup_files_never_attempted [of "[''buffer_01.csv'']" test_library
      "[one_file ''buffer_01.csv'' (Inr (recording 30)), one_file ''buffer_02.csv'' unreadable]"]
  show ?thesis by blast
qed








end
